theory Spec2Isabelle
  imports Complex_Main
begin

section \<open>Domain types (src/types/index.ts)\<close>

text \<open>
  The string-literal unions of the source are datatypes. \<open>SentimentScore\<close> is a JavaScript
  number; it is modelled as a real number, so the not-a-number value is outside the model.
\<close>

type_synonym SentimentScore = real

datatype EmotionTag =
    Emotion_anger | Emotion_joy | Emotion_sadness | Emotion_fear | Emotion_surprise
  | Emotion_disgust | Emotion_empathy | Emotion_supportive | Emotion_funny
  | Emotion_critical | Emotion_grateful | Emotion_frustrated | Emotion_enthusiastic
  | Emotion_analytical | Emotion_sarcasm | Emotion_confused | Emotion_neutral
  | Emotion_disappointed | Emotion_excited

datatype StanceLabel = Support | Oppose | Neutral | Unknown

datatype ReplyRelation = Agree | Disagree | Clarify | Question | Unrelated

datatype SpeechAct =
    Act_assertion | Act_question | Act_joke | Act_sarcasm | Act_insult | Act_praise | Act_other

text \<open>
  A comment as the thread logic sees it, \<open>{ id: string; parentId?: string }\<close>, and the full
  \<open>YouTubeComment\<close>, which extends it (structural subtyping of the source as record
  extension). The field \<open>id\<close> is \<open>id_str\<close> and \<open>text\<close> is \<open>comment_text\<close> here.
\<close>

record ThreadComment =
  id_str :: string
  parentId :: "string option"

record YouTubeComment = ThreadComment +
  videoId :: string
  author :: string
  authorChannelId :: "string option"
  comment_text :: string
  likeCount :: int
  publishedAt :: string
  updatedAt :: "string option"
  parentText :: "string option"

record SentimentAnalysis =
  commentId :: string
  score :: SentimentScore
  weightedScore :: SentimentScore
  emotions :: "EmotionTag list"
  isSarcasm :: bool
  reason :: "string option"
  label :: "StanceLabel option"
  confidence :: "real option"
  axisEvidence :: "string option"
  replyRelation :: "ReplyRelation option"
  speechAct :: "SpeechAct option"

text \<open>
  JavaScript truthiness of an optional string: \<open>undefined\<close> and the empty string are falsy.
\<close>

definition truthy_str :: "string option \<Rightarrow> bool" where
  "truthy_str s = (case s of None \<Rightarrow> False | Some t \<Rightarrow> t \<noteq> [])"

text \<open>How a template literal renders a label, a relation and an optional label.\<close>

fun label_str :: "StanceLabel \<Rightarrow> string" where
  "label_str Support = ''Support''"
| "label_str Oppose = ''Oppose''"
| "label_str Neutral = ''Neutral''"
| "label_str Unknown = ''Unknown''"

fun relation_str :: "ReplyRelation \<Rightarrow> string" where
  "relation_str Agree = ''agree''"
| "relation_str Disagree = ''disagree''"
| "relation_str Clarify = ''clarify''"
| "relation_str Question = ''question''"
| "relation_str Unrelated = ''unrelated''"

fun opt_label_str :: "StanceLabel option \<Rightarrow> string" where
  "opt_label_str None = ''undefined''"
| "opt_label_str (Some l) = label_str l"

section \<open>Stance synthesis (stance-logic.ts)\<close>

definition synthesizeStance :: "StanceLabel \<Rightarrow> ReplyRelation \<Rightarrow> StanceLabel" where
  "synthesizeStance parentLabel rel =
     (if rel = Unrelated \<or> rel = Clarify \<or> rel = Question then Neutral
      else if rel = Disagree then
        (if parentLabel = Support then Oppose
         else if parentLabel = Oppose then Support
         else if parentLabel = Neutral then Neutral
         else Unknown)
      else if rel = Agree then parentLabel
      else Unknown)"

text \<open>The \<open>default\<close> branch of the source's switch returns 0.0 as well; no label reaches it.\<close>

fun labelToScore :: "StanceLabel \<Rightarrow> real" where
  "labelToScore Support = 0.85"
| "labelToScore Oppose = - 0.85"
| "labelToScore Neutral = 0.0"
| "labelToScore Unknown = 0.0"

definition scoreToLabel :: "real \<Rightarrow> StanceLabel" where
  "scoreToLabel s =
     (if s \<ge> 0.7 then Support
      else if s \<le> - 0.7 then Oppose
      else if \<bar>s\<bar> < 0.3 then Neutral
      else Unknown)"

text \<open>
  \<open>applyStanceSynthesis\<close>. The two \<open>Map\<close> objects are filled by \<open>forEach\<close> and \<open>set\<close>, so a later
  entry with the same key replaces an earlier one. \<open>synthesizeReply\<close> is the callback of the
  final \<open>analyses.map\<close>; \<open>!comment?.parentId\<close> holds for a comment that is not in the map, has no
  \<open>parentId\<close> or has the empty string as \<open>parentId\<close>. The object spread keeps every field of
  the analysis that is not listed after it.
\<close>

definition analysisMap_of :: "SentimentAnalysis list \<Rightarrow> (string \<rightharpoonup> SentimentAnalysis)" where
  "analysisMap_of analyses = foldl (\<lambda>m a. m(commentId a \<mapsto> a)) Map.empty analyses"

definition commentMap_of ::
  "'a ThreadComment_scheme list \<Rightarrow> (string \<rightharpoonup> 'a ThreadComment_scheme)" where
  "commentMap_of comments = foldl (\<lambda>m c. m(id_str c \<mapsto> c)) Map.empty comments"

definition threadContextEvidence :: "StanceLabel \<Rightarrow> ReplyRelation \<Rightarrow> string \<Rightarrow> string" where
  "threadContextEvidence parentLabel rel evidence =
     ''[Thread Context: Parent was '' @ label_str parentLabel @ '', Reply '' @ relation_str rel
       @ ''] '' @ evidence"

definition synthesizedEvidence :: "StanceLabel \<Rightarrow> ReplyRelation \<Rightarrow> string" where
  "synthesizedEvidence parentLabel rel =
     ''Synthesized from parent ('' @ label_str parentLabel @ '') + '' @ relation_str rel"

definition synthesizedReason ::
  "StanceLabel option \<Rightarrow> StanceLabel \<Rightarrow> StanceLabel \<Rightarrow> ReplyRelation \<Rightarrow> string" where
  "synthesizedReason originalLabel synthesizedLabel parentLabel rel =
     ''Original: '' @ opt_label_str originalLabel @ '' -> Synthesized: ''
       @ label_str synthesizedLabel @ '' (Parent: '' @ label_str parentLabel
       @ '', Relation: '' @ relation_str rel @ '')''"

definition synthesizeReply ::
  "(string \<rightharpoonup> SentimentAnalysis) \<Rightarrow> (string \<rightharpoonup> 'a ThreadComment_scheme)
     \<Rightarrow> SentimentAnalysis \<Rightarrow> SentimentAnalysis" where
  "synthesizeReply analysisMap commentMap analysis =
     (case commentMap (commentId analysis) of
        None \<Rightarrow> analysis
      | Some comment \<Rightarrow>
          (case parentId comment of
             None \<Rightarrow> analysis
           | Some pid \<Rightarrow>
               if pid = [] then analysis
               else
                 (case analysisMap pid of
                    None \<Rightarrow> analysis
                  | Some parentAnalysis \<Rightarrow>
                      (case label parentAnalysis of
                         None \<Rightarrow> analysis
                       | Some parentLabel \<Rightarrow>
                           (case replyRelation analysis of
                              None \<Rightarrow> analysis
                            | Some rel \<Rightarrow>
                                (let originalLabel = label analysis;
                                     synthesizedLabel = synthesizeStance parentLabel rel
                                 in analysis
                                      \<lparr> label := Some synthesizedLabel,
                                        score := labelToScore synthesizedLabel,
                                        axisEvidence :=
                                          Some (if truthy_str (axisEvidence analysis)
                                                then threadContextEvidence parentLabel rel
                                                       (case axisEvidence analysis of
                                                          Some e \<Rightarrow> e | None \<Rightarrow> [])
                                                else synthesizedEvidence parentLabel rel),
                                        reason :=
                                          Some (synthesizedReason originalLabel synthesizedLabel
                                                  parentLabel rel) \<rparr>))))))"

definition applyStanceSynthesis ::
  "SentimentAnalysis list \<Rightarrow> 'a ThreadComment_scheme list \<Rightarrow> SentimentAnalysis list" where
  "applyStanceSynthesis analyses comments =
     map (synthesizeReply (analysisMap_of analyses) (commentMap_of comments)) analyses"

text \<open>\<open>sortCommentsByThreadOrder\<close>: top-level comments first, then replies, each in input order.\<close>

definition sortCommentsByThreadOrder ::
  "'a ThreadComment_scheme list \<Rightarrow> 'a ThreadComment_scheme list" where
  "sortCommentsByThreadOrder comments =
     filter (\<lambda>c. \<not> truthy_str (parentId c)) comments @ filter (\<lambda>c. truthy_str (parentId c)) comments"

section \<open>Evaluation against ground truth (evaluation.ts)\<close>

record GroundTruthItem =
  gt_commentId :: string
  gt_text :: string
  expectedLabel :: StanceLabel
  gt_notes :: "string option"

datatype Severity = High | Medium | Low

record CriticalError =
  ce_commentId :: string
  ce_text :: string
  expected :: StanceLabel
  predicted :: StanceLabel
  severity :: Severity
  ce_reason :: string

record LabelMetrics =
  metric_label :: StanceLabel
  precision :: real
  recall :: real
  f1Score :: real

text \<open>
  The confusion matrix is an object with one row per expected label and one cell per predicted
  label; it is a function of the two labels here.
\<close>

type_synonym ConfusionMatrix = "StanceLabel \<Rightarrow> StanceLabel \<Rightarrow> nat"

record EvaluationResult =
  accuracy :: real
  totalSamples :: nat
  correctPredictions :: nat
  confusionMatrix :: ConfusionMatrix
  criticalErrors :: "CriticalError list"
  perLabelMetrics :: "LabelMetrics list"

definition getCriticalErrorSeverity :: "StanceLabel \<Rightarrow> StanceLabel \<Rightarrow> Severity option" where
  "getCriticalErrorSeverity e p =
     (if (e = Support \<and> p = Oppose) \<or> (e = Oppose \<and> p = Support) then Some High
      else if ((e = Support \<or> e = Oppose) \<and> p = Neutral)
              \<or> (e = Neutral \<and> (p = Support \<or> p = Oppose)) then Some Medium
      else if e = Unknown \<or> p = Unknown then Some Low
      else None)"

text \<open>The variables the \<open>forEach\<close> loop of \<open>evaluateStanceAccuracy\<close> updates.\<close>

record EvalState =
  st_matrix :: ConfusionMatrix
  st_errors :: "CriticalError list"
  st_correct :: nat

definition gtMap_of :: "GroundTruthItem list \<Rightarrow> (string \<rightharpoonup> GroundTruthItem)" where
  "gtMap_of groundTruth = foldl (\<lambda>m gt. m(gt_commentId gt \<mapsto> gt)) Map.empty groundTruth"

definition reasonOrDefault :: "string option \<Rightarrow> string \<Rightarrow> string" where
  "reasonOrDefault r dflt = (case r of None \<Rightarrow> dflt | Some t \<Rightarrow> if t = [] then dflt else t)"

definition evalStep ::
  "(string \<rightharpoonup> GroundTruthItem) \<Rightarrow> EvalState \<Rightarrow> SentimentAnalysis \<Rightarrow> EvalState" where
  "evalStep gtMap st pred =
     (case gtMap (commentId pred) of
        None \<Rightarrow> st
      | Some gt \<Rightarrow>
          (case label pred of
             None \<Rightarrow> st
           | Some p \<Rightarrow>
               (let e = expectedLabel gt;
                    m = st_matrix st;
                    st1 = st\<lparr>st_matrix := m(e := (m e)(p := m e p + 1))\<rparr>
                in if e = p then st1\<lparr>st_correct := st_correct st1 + 1\<rparr>
                   else
                     (case getCriticalErrorSeverity e p of
                        None \<Rightarrow> st1
                      | Some sev \<Rightarrow>
                          st1\<lparr>st_errors := st_errors st1 @
                            [\<lparr> ce_commentId = commentId pred, ce_text = gt_text gt,
                               expected = e, predicted = p, severity = sev,
                               ce_reason = reasonOrDefault (reason pred) ''No reason provided'' \<rparr>]\<rparr>))))"

definition stanceLabels :: "StanceLabel list" where
  "stanceLabels = [Support, Oppose, Neutral, Unknown]"

definition labelMetrics :: "ConfusionMatrix \<Rightarrow> StanceLabel \<Rightarrow> LabelMetrics" where
  "labelMetrics m l =
     (let truePositive = m l l;
          falsePositive = foldl (\<lambda>sum k. sum + (if k \<noteq> l then m k l else 0)) 0 stanceLabels;
          falseNegative = foldl (\<lambda>sum k. sum + (if k \<noteq> l then m l k else 0)) 0 stanceLabels;
          prec = (if truePositive + falsePositive > 0
                  then real truePositive / real (truePositive + falsePositive) else 0);
          rec = (if truePositive + falseNegative > 0
                 then real truePositive / real (truePositive + falseNegative) else 0);
          f1 = (if prec + rec > 0 then (2 * prec * rec) / (prec + rec) else 0)
      in \<lparr> metric_label = l, precision = prec, recall = rec, f1Score = f1 \<rparr>)"

definition evaluateStanceAccuracy ::
  "SentimentAnalysis list \<Rightarrow> GroundTruthItem list \<Rightarrow> EvaluationResult" where
  "evaluateStanceAccuracy predictions groundTruth =
     (let gtMap = gtMap_of groundTruth;
          st = foldl (evalStep gtMap)
                 \<lparr> st_matrix = (\<lambda>e p. 0), st_errors = [], st_correct = 0 \<rparr> predictions;
          total = length (filter (\<lambda>p. label p \<noteq> None \<and> gtMap (commentId p) \<noteq> None) predictions);
          acc = (if total > 0 then real (st_correct st) / real total else 0)
      in \<lparr> accuracy = acc, totalSamples = total, correctPredictions = st_correct st,
           confusionMatrix = st_matrix st, criticalErrors = st_errors st,
           perLabelMetrics = map (labelMetrics (st_matrix st)) stanceLabels \<rparr>)"

text \<open>The number of judgments a confusion matrix has counted: the sum of its sixteen cells.\<close>

definition confusionTotal :: "ConfusionMatrix \<Rightarrow> nat" where
  "confusionTotal m = sum_list (map (\<lambda>e. sum_list (map (m e) stanceLabels)) stanceLabels)"

section \<open>Analysis engines (gemini-engine.ts, groq-engine.ts)\<close>

text \<open>
  \<open>GeminiEngine\<close> and \<open>GroqEngine\<close> each have the private methods \<open>clampScore\<close> and
  \<open>calculateWeightedScore\<close>, with the same body. \<open>Math.log10\<close> is the real logarithm to base 10.
\<close>

definition clampScore :: "real \<Rightarrow> SentimentScore" where
  "clampScore s = max (- 1) (min 1 s)"

definition calculateWeightedScore :: "SentimentScore \<Rightarrow> int \<Rightarrow> SentimentScore" where
  "calculateWeightedScore s likes =
     (let weight = 1 + log 10 (real_of_int likes + 1);
          weighted = s * weight;
          normalized = weighted / 7
      in clampScore normalized)"

record VideoContext =
  title :: string
  channelName :: string
  description :: "string option"
  summary :: "string option"

record AxisProfile =
  ap_videoId :: string
  mainAxis :: string
  creatorPosition :: string
  targetOfCriticism :: "string option"
  supportedValues :: "string option"
  generatedAt :: string

record BatchAnalysisRequest =
  comments :: "YouTubeComment list"
  videoContext :: "VideoContext option"

record BatchAnalysisResponse =
  analyses :: "SentimentAnalysis list"
  processingTimeMs :: int
  tokensUsed :: "int option"
  isPartial :: "bool option"

text \<open>
  A thrown value, with the properties the handlers read: \<open>status\<close>, \<open>error.code\<close>,
  \<open>error.failed_generation\<close> and \<open>message\<close>. A failing call is \<open>Inl\<close> of the thrown value.
\<close>

record Thrown =
  status :: "int option"
  error_code :: "string option"
  failed_generation :: "string option"
  message :: "string option"

record AnalysisError =
  ae_message :: string
  ae_code :: string
  ae_details :: Thrown

text \<open>\<open>String.prototype.includes\<close>.\<close>

fun includes_str :: "string \<Rightarrow> string \<Rightarrow> bool" where
  "includes_str [] sub = (sub = [])"
| "includes_str (c # cs) sub = (take (length sub) (c # cs) = sub \<or> includes_str cs sub)"

definition message_includes :: "Thrown \<Rightarrow> string \<Rightarrow> bool" where
  "message_includes e sub = (case message e of None \<Rightarrow> False | Some m \<Rightarrow> includes_str m sub)"

definition message_str :: "Thrown \<Rightarrow> string" where
  "message_str e = (case message e of None \<Rightarrow> ''undefined'' | Some m \<Rightarrow> m)"

definition isQuotaError :: "Thrown \<Rightarrow> bool" where
  "isQuotaError e =
     (status e = Some 429 \<or> status e = Some 413
      \<or> message_includes e ''429'' \<or> message_includes e ''413''
      \<or> message_includes e ''quota'' \<or> message_includes e ''rate_limit_exceeded'')"

text \<open>
  The content the handlers try to recover from: \<open>error.error.failed_generation\<close> of a status
  400 error with code \<open>json_validate_failed\<close>, when it is a non-empty string.
\<close>

definition failedContent :: "Thrown \<Rightarrow> string option" where
  "failedContent e =
     (if status e = Some 400 \<and> error_code e = Some ''json_validate_failed''
         \<and> truthy_str (failed_generation e)
      then failed_generation e else None)"

text \<open>
  The items of a reply as the interfaces \<open>GroqResponse\<close>, \<open>AxisGroqResponse\<close> and
  \<open>GeminiResponse\<close> type them; a field is optional where the code provides for its absence.
  The field \<open>id\<close> is never read and is left out.
\<close>

record GroqResponse =
  r_commentId :: string
  r_score :: real
  r_emotions :: "EmotionTag list option"
  r_isSarcasm :: "bool option"
  r_reason :: "string option"

record AxisGroqResponse =
  x_commentId :: string
  x_score :: "real option"
  x_emotions :: "EmotionTag list option"
  x_isSarcasm :: "bool option"
  x_reason :: "string option"
  x_label :: "StanceLabel option"
  x_confidence :: "real option"
  x_axisEvidence :: "string option"
  x_replyRelation :: "ReplyRelation option"
  x_speechAct :: "SpeechAct option"

record GeminiResponse =
  g_commentId :: string
  g_score :: real
  g_emotions :: "EmotionTag list"
  g_isSarcasm :: bool
  g_reason :: string

text \<open>
  A decoded reply: an array of items, or an object that may carry an array under
  \<open>analyses\<close>, \<open>results\<close> or \<open>comments\<close> and is otherwise read as one item itself.
\<close>

datatype 'i Parsed =
    ParsedArray "'i list"
  | ParsedObject (p_analyses: "'i list option") (p_results: "'i list option")
      (p_comments: "'i list option") (p_self: 'i)

datatype GeminiParsed = GeminiArray "GeminiResponse list" | GeminiNotArray

record Completion =
  content :: "string option"
  total_tokens :: "int option"

text \<open>
  What an engine call depends on and the code does not compute from its arguments: the prompt
  constants and prompt builders (pure string functions of prompts.ts, whose text no claim
  depends on), the remote call, the decoder \<open>parseJSON\<close> (text repairs followed by the built-in
  \<open>JSON.parse\<close>), and the two readings of \<open>Date.now()\<close>, on entry and on return. An engine
  function returns its result together with the list of the remote calls it made.
\<close>

record GroqEnv =
  SYSTEM_PROMPT :: string
  AXIS_SYSTEM_PROMPT :: string
  createBatchPrompt :: "YouTubeComment list \<Rightarrow> VideoContext option \<Rightarrow> string"
  createAxisBatchPrompt :: "YouTubeComment list \<Rightarrow> AxisProfile \<Rightarrow> VideoContext option \<Rightarrow> string"
  chat_create :: "string \<Rightarrow> string \<Rightarrow> Thrown + Completion"
  parseJSON :: "string \<Rightarrow> Thrown + GroqResponse Parsed"
  parseJSON_axis :: "string \<Rightarrow> Thrown + AxisGroqResponse Parsed"
  startTime :: int
  endTime :: int

record GeminiEnv =
  gemini_createBatchPrompt :: "YouTubeComment list \<Rightarrow> VideoContext option \<Rightarrow> string"
  generateContent :: "string \<Rightarrow> Thrown + string"
  gemini_parseJSON :: "string \<Rightarrow> Thrown + GeminiParsed"
  gemini_startTime :: int
  gemini_endTime :: int

type_synonym 'c EngineRun = "(AnalysisError + BatchAnalysisResponse) \<times> 'c list"

definition emptyResponse :: BatchAnalysisResponse where
  "emptyResponse =
     \<lparr> analyses = [], processingTimeMs = 0, tokensUsed = Some 0, isPartial = None \<rparr>"

definition plainAnalysis ::
  "string \<Rightarrow> real \<Rightarrow> real \<Rightarrow> EmotionTag list \<Rightarrow> bool \<Rightarrow> string \<Rightarrow> SentimentAnalysis" where
  "plainAnalysis cid s w es sarc r =
     \<lparr> commentId = cid, score = s, weightedScore = w, emotions = es, isSarcasm = sarc,
       reason = Some r, label = None, confidence = None, axisEvidence = None,
       replyRelation = None, speechAct = None \<rparr>"

definition axisAnalysis ::
  "string \<Rightarrow> real \<Rightarrow> real \<Rightarrow> EmotionTag list \<Rightarrow> bool \<Rightarrow> string \<Rightarrow> StanceLabel \<Rightarrow> real \<Rightarrow> string
     \<Rightarrow> ReplyRelation option \<Rightarrow> SpeechAct option \<Rightarrow> SentimentAnalysis" where
  "axisAnalysis cid s w es sarc r l conf ev rel act =
     \<lparr> commentId = cid, score = s, weightedScore = w, emotions = es, isSarcasm = sarc,
       reason = Some r, label = Some l, confidence = Some conf, axisEvidence = Some ev,
       replyRelation = rel, speechAct = act \<rparr>"

subsection \<open>GeminiEngine.analyzeBatch\<close>

definition estimateTokens :: "string \<Rightarrow> string \<Rightarrow> int" where
  "estimateTokens prompt response =
     (let totalChars = length prompt + length response;
          estimatedWords = real totalChars / 5
      in \<lceil>estimatedWords * 1.3\<rceil>)"

definition geminiBatchError :: "Thrown \<Rightarrow> AnalysisError" where
  "geminiBatchError e =
     \<lparr> ae_message = ''Failed to analyze batch: ''
          @ (case message e of None \<Rightarrow> ''Unknown error'' | Some m \<Rightarrow> m),
       ae_code = ''GEMINI_BATCH_ERROR'', ae_details = e \<rparr>"

definition geminiItemAnalysis :: "YouTubeComment list \<Rightarrow> GeminiResponse \<Rightarrow> SentimentAnalysis" where
  "geminiItemAnalysis cs item =
     (let comment = find (\<lambda>c. id_str c = g_commentId item) cs;
          likes = (case comment of None \<Rightarrow> 0 | Some c \<Rightarrow> likeCount c)
      in plainAnalysis (g_commentId item) (clampScore (g_score item))
           (calculateWeightedScore (g_score item) likes) (g_emotions item) (g_isSarcasm item)
           (g_reason item))"

definition GeminiEngine_analyzeBatch :: "GeminiEnv \<Rightarrow> BatchAnalysisRequest \<Rightarrow> string EngineRun" where
  "GeminiEngine_analyzeBatch env request =
     (if length (comments request) = 0 then (Inr emptyResponse, [])
      else
        (let prompt = gemini_createBatchPrompt env (comments request) (videoContext request);
             result =
               (case generateContent env prompt of
                  Inl e \<Rightarrow> Inl (geminiBatchError e)
                | Inr text \<Rightarrow>
                    (case gemini_parseJSON env text of
                       Inl e \<Rightarrow> Inl (geminiBatchError e)
                     | Inr GeminiNotArray \<Rightarrow>
                         Inl (geminiBatchError
                                \<lparr> status = None, error_code = None, failed_generation = None,
                                  message = Some ''Expected JSON array response from Gemini'' \<rparr>)
                     | Inr (GeminiArray parsedArray) \<Rightarrow>
                         Inr \<lparr> analyses = map (geminiItemAnalysis (comments request)) parsedArray,
                               processingTimeMs = gemini_endTime env - gemini_startTime env,
                               tokensUsed = Some (estimateTokens prompt text),
                               isPartial = None \<rparr>))
         in (result, [prompt])))"

subsection \<open>GroqEngine.analyzeBatch\<close>

definition completionText :: "Completion \<Rightarrow> string" where
  "completionText completion = (case content completion of None \<Rightarrow> [] | Some t \<Rightarrow> t)"

definition completionTokens :: "Completion \<Rightarrow> int" where
  "completionTokens completion = (case total_tokens completion of None \<Rightarrow> 0 | Some n \<Rightarrow> n)"

text \<open>The array the success path reads from a decoded reply, and the one the recovery path reads.\<close>

definition parsedArray_batch :: "'i Parsed \<Rightarrow> 'i list" where
  "parsedArray_batch parsed =
     (case parsed of
        ParsedArray xs \<Rightarrow> xs
      | ParsedObject an re co self \<Rightarrow>
          (case an of Some xs \<Rightarrow> xs
           | None \<Rightarrow> (case re of Some xs \<Rightarrow> xs
                      | None \<Rightarrow> (case co of Some xs \<Rightarrow> xs | None \<Rightarrow> [self]))))"

definition parsedArray_axis :: "'i Parsed \<Rightarrow> 'i list" where
  "parsedArray_axis parsed =
     (case parsed of
        ParsedArray xs \<Rightarrow> xs
      | ParsedObject an re co self \<Rightarrow>
          (case co of Some xs \<Rightarrow> xs
           | None \<Rightarrow> (case an of Some xs \<Rightarrow> xs
                      | None \<Rightarrow> (case re of Some xs \<Rightarrow> xs | None \<Rightarrow> [self]))))"

definition recoveryItems :: "'i Parsed \<Rightarrow> 'i list" where
  "recoveryItems parsed =
     (case parsed of
        ParsedArray xs \<Rightarrow> xs
      | ParsedObject an re co self \<Rightarrow>
          (case co of Some xs \<Rightarrow> xs
           | None \<Rightarrow> (case an of Some xs \<Rightarrow> xs
                      | None \<Rightarrow> (case re of Some xs \<Rightarrow> xs | None \<Rightarrow> [self]))))"

definition emotionsOrNeutral :: "EmotionTag list option \<Rightarrow> EmotionTag list" where
  "emotionsOrNeutral es = (case es of None \<Rightarrow> [Emotion_neutral] | Some xs \<Rightarrow> xs)"

definition toBool :: "bool option \<Rightarrow> bool" where
  "toBool b = (case b of None \<Rightarrow> False | Some v \<Rightarrow> v)"

text \<open>The callback of \<open>request.comments.map\<close>, with the text of its two default reasons.\<close>

definition groqItemAnalysis ::
  "string \<Rightarrow> string \<Rightarrow> GroqResponse list \<Rightarrow> YouTubeComment \<Rightarrow> SentimentAnalysis" where
  "groqItemAnalysis skipped noReason parsedArray comment =
     (case find (\<lambda>p. r_commentId p = id_str comment) parsedArray of
        None \<Rightarrow> plainAnalysis (id_str comment) 0 0 [Emotion_neutral] False skipped
      | Some item \<Rightarrow>
          plainAnalysis (r_commentId item) (clampScore (r_score item))
            (calculateWeightedScore (r_score item) (likeCount comment))
            (emotionsOrNeutral (r_emotions item)) (toBool (r_isSarcasm item))
            (reasonOrDefault (r_reason item) noReason))"

definition quotaFallback :: "YouTubeComment \<Rightarrow> SentimentAnalysis" where
  "quotaFallback c =
     plainAnalysis (id_str c) 0 0 [Emotion_neutral] False
       ''Analysis skipped due to Groq API limits.''"

definition groqBatchCatch ::
  "GroqEnv \<Rightarrow> BatchAnalysisRequest \<Rightarrow> Thrown \<Rightarrow> AnalysisError + BatchAnalysisResponse" where
  "groqBatchCatch env request e =
     (let recovered =
            (case failedContent e of
               None \<Rightarrow> None
             | Some fc \<Rightarrow>
                 (case parseJSON env fc of
                    Inl e2 \<Rightarrow> None
                  | Inr parsed \<Rightarrow>
                      Some \<lparr> analyses =
                               map (groqItemAnalysis ''Skipped in recovery''
                                      ''Recovered from partial JSON'' (recoveryItems parsed))
                                 (comments request),
                             processingTimeMs = endTime env - startTime env,
                             tokensUsed = Some 0, isPartial = None \<rparr>))
      in case recovered of
           Some response \<Rightarrow> Inr response
         | None \<Rightarrow>
             if isQuotaError e
             then Inr \<lparr> analyses = map quotaFallback (comments request),
                        processingTimeMs = endTime env - startTime env,
                        tokensUsed = Some 0, isPartial = Some True \<rparr>
             else Inl \<lparr> ae_message = ''Failed to analyze batch with Groq: '' @ message_str e,
                        ae_code = ''GROQ_BATCH_ERROR'', ae_details = e \<rparr>)"

definition GroqEngine_analyzeBatch ::
  "GroqEnv \<Rightarrow> BatchAnalysisRequest \<Rightarrow> (string \<times> string) EngineRun" where
  "GroqEngine_analyzeBatch env request =
     (if length (comments request) = 0 then (Inr emptyResponse, [])
      else
        (let prompt = createBatchPrompt env (comments request) (videoContext request);
             result =
               (case chat_create env (SYSTEM_PROMPT env) prompt of
                  Inl e \<Rightarrow> groqBatchCatch env request e
                | Inr completion \<Rightarrow>
                    (case parseJSON env (completionText completion) of
                       Inl e \<Rightarrow> groqBatchCatch env request e
                     | Inr parsed \<Rightarrow>
                         Inr \<lparr> analyses =
                                 map (groqItemAnalysis
                                        ''Groq skipped this comment in batch analysis''
                                        ''No reason provided'' (parsedArray_batch parsed))
                                   (comments request),
                               processingTimeMs = endTime env - startTime env,
                               tokensUsed = Some (completionTokens completion),
                               isPartial = None \<rparr>))
         in (result, [(SYSTEM_PROMPT env, prompt)])))"

subsection \<open>GroqEngine.analyzeAxisBatch\<close>

text \<open>The private \<open>labelToScore\<close> of the engine, applied to a label that may be absent.\<close>

definition GroqEngine_labelToScore :: "StanceLabel option \<Rightarrow> real" where
  "GroqEngine_labelToScore l =
     (case l of
        Some Support \<Rightarrow> 0.85
      | Some Oppose \<Rightarrow> - 0.85
      | Some Neutral \<Rightarrow> 0.0
      | Some Unknown \<Rightarrow> 0.0
      | None \<Rightarrow> 0.0)"

definition sortedComments_of :: "YouTubeComment list \<Rightarrow> YouTubeComment list" where
  "sortedComments_of cs =
     (let commentOrder = map (\<lambda>c. \<lparr> id_str = id_str c, parentId = parentId c \<rparr>) cs;
          sortedOrder = sortCommentsByThreadOrder commentOrder
      in concat (map (\<lambda>ordered. case find (\<lambda>c. id_str c = id_str ordered) cs of
                                   None \<Rightarrow> [] | Some c \<Rightarrow> [c]) sortedOrder))"

definition axisSkipped :: "string \<Rightarrow> string \<Rightarrow> YouTubeComment \<Rightarrow> SentimentAnalysis" where
  "axisSkipped why evidence comment =
     axisAnalysis (id_str comment) 0 0 [Emotion_neutral] False why Unknown 0 evidence None None"

definition axisItemAnalysis :: "AxisGroqResponse list \<Rightarrow> YouTubeComment \<Rightarrow> SentimentAnalysis" where
  "axisItemAnalysis parsedArray comment =
     (case find (\<lambda>p. x_commentId p = id_str comment) parsedArray of
        None \<Rightarrow>
          axisSkipped ''Groq skipped this comment in axis analysis'' ''No analysis available''
            comment
      | Some item \<Rightarrow>
          (let scoreFromLabel = GroqEngine_labelToScore (x_label item);
               finalScore = (case x_score item of Some s \<Rightarrow> s | None \<Rightarrow> scoreFromLabel)
           in axisAnalysis (x_commentId item) (clampScore finalScore)
                (calculateWeightedScore finalScore (likeCount comment))
                (emotionsOrNeutral (x_emotions item)) (toBool (x_isSarcasm item))
                (reasonOrDefault (x_reason item) ''No reason provided'')
                (case x_label item of None \<Rightarrow> Unknown | Some l \<Rightarrow> l)
                (case x_confidence item of None \<Rightarrow> 0.5 | Some c \<Rightarrow> if c = 0 then 0.5 else c)
                (case x_axisEvidence item of None \<Rightarrow> [] | Some ev \<Rightarrow> ev)
                (x_replyRelation item) (x_speechAct item)))"

definition axisRecoveredAnalysis ::
  "AxisGroqResponse list \<Rightarrow> YouTubeComment \<Rightarrow> SentimentAnalysis" where
  "axisRecoveredAnalysis items comment =
     (case find (\<lambda>p. x_commentId p = id_str comment) items of
        None \<Rightarrow> axisSkipped ''Skipped in recovery'' ''Skipped'' comment
      | Some item \<Rightarrow>
          (let scoreFromLabel = GroqEngine_labelToScore (x_label item);
               finalScore = (case x_score item of Some s \<Rightarrow> s | None \<Rightarrow> scoreFromLabel)
           in axisAnalysis (x_commentId item) (clampScore finalScore)
                (calculateWeightedScore finalScore (likeCount comment))
                (emotionsOrNeutral (x_emotions item)) (toBool (x_isSarcasm item))
                (reasonOrDefault (x_reason item) ''Recovered from partial JSON'')
                (case x_label item of None \<Rightarrow> Unknown | Some l \<Rightarrow> l)
                (case x_confidence item of None \<Rightarrow> 0.5 | Some c \<Rightarrow> if c = 0 then 0.5 else c)
                (case x_axisEvidence item of None \<Rightarrow> [] | Some ev \<Rightarrow> ev)
                None None))"

definition reweigh :: "YouTubeComment list \<Rightarrow> SentimentAnalysis \<Rightarrow> SentimentAnalysis" where
  "reweigh sortedComments analysis =
     (case find (\<lambda>c. id_str c = commentId analysis) sortedComments of
        None \<Rightarrow> analysis
      | Some comment \<Rightarrow>
          analysis\<lparr>weightedScore := calculateWeightedScore (score analysis) (likeCount comment)\<rparr>)"

definition axisQuotaFallback :: "YouTubeComment \<Rightarrow> SentimentAnalysis" where
  "axisQuotaFallback c =
     axisAnalysis (id_str c) 0 0 [Emotion_neutral] False
       ''Analysis skipped due to Groq API limits.'' Unknown 0 ''API quota exceeded'' None None"

definition groqAxisCatch ::
  "GroqEnv \<Rightarrow> BatchAnalysisRequest \<Rightarrow> YouTubeComment list \<Rightarrow> Thrown
     \<Rightarrow> AnalysisError + BatchAnalysisResponse" where
  "groqAxisCatch env request sortedComments e =
     (let recovered =
            (case failedContent e of
               None \<Rightarrow> None
             | Some fc \<Rightarrow>
                 (case parseJSON_axis env fc of
                    Inl e2 \<Rightarrow> None
                  | Inr parsed \<Rightarrow>
                      Some \<lparr> analyses =
                               applyStanceSynthesis
                                 (map (axisRecoveredAnalysis (recoveryItems parsed)) sortedComments)
                                 sortedComments,
                             processingTimeMs = endTime env - startTime env,
                             tokensUsed = Some 0, isPartial = None \<rparr>))
      in case recovered of
           Some response \<Rightarrow> Inr response
         | None \<Rightarrow>
             if isQuotaError e
             then Inr \<lparr> analyses = map axisQuotaFallback (comments request),
                        processingTimeMs = endTime env - startTime env,
                        tokensUsed = Some 0, isPartial = Some True \<rparr>
             else Inl \<lparr> ae_message = ''Failed to analyze axis batch with Groq: '' @ message_str e,
                        ae_code = ''GROQ_AXIS_BATCH_ERROR'', ae_details = e \<rparr>)"

definition GroqEngine_analyzeAxisBatch ::
  "GroqEnv \<Rightarrow> BatchAnalysisRequest \<Rightarrow> AxisProfile \<Rightarrow> (string \<times> string) EngineRun" where
  "GroqEngine_analyzeAxisBatch env request axisProfile =
     (if length (comments request) = 0 then (Inr emptyResponse, [])
      else
        (let sortedComments = sortedComments_of (comments request);
             prompt = createAxisBatchPrompt env sortedComments axisProfile (videoContext request);
             result =
               (case chat_create env (AXIS_SYSTEM_PROMPT env) prompt of
                  Inl e \<Rightarrow> groqAxisCatch env request sortedComments e
                | Inr completion \<Rightarrow>
                    (case parseJSON_axis env (completionText completion) of
                       Inl e \<Rightarrow> groqAxisCatch env request sortedComments e
                     | Inr parsed \<Rightarrow>
                         Inr \<lparr> analyses =
                                 map (reweigh sortedComments)
                                   (applyStanceSynthesis
                                      (map (axisItemAnalysis (parsedArray_axis parsed))
                                         sortedComments)
                                      sortedComments),
                               processingTimeMs = endTime env - startTime env,
                               tokensUsed = Some (completionTokens completion),
                               isPartial = None \<rparr>))
         in (result, [(AXIS_SYSTEM_PROMPT env, prompt)])))"

section \<open>Concrete inputs\<close>

text \<open>
  A thread of two comments, a top-level comment \<open>c1\<close> and its reply \<open>c2\<close>, with judgments for
  both, and environments in which the remote call answers with a given list of items or fails
  with a rate-limit error.
\<close>

definition comment_c1 :: YouTubeComment where
  "comment_c1 =
     \<lparr> id_str = ''c1'', parentId = None, videoId = ''v'', author = ''ann'',
       authorChannelId = None, comment_text = ''I agree with the video'', likeCount = 9,
       publishedAt = ''2026-01-11'', updatedAt = None, parentText = None \<rparr>"

definition comment_c2 :: YouTubeComment where
  "comment_c2 =
     \<lparr> id_str = ''c2'', parentId = Some ''c1'', videoId = ''v'', author = ''bob'',
       authorChannelId = None, comment_text = ''No, that is wrong'', likeCount = 0,
       publishedAt = ''2026-01-11'', updatedAt = None,
       parentText = Some ''I agree with the video'' \<rparr>"

definition request_c1_c2 :: BatchAnalysisRequest where
  "request_c1_c2 = \<lparr> comments = [comment_c1, comment_c2], videoContext = None \<rparr>"

definition analysis_c1 :: SentimentAnalysis where
  "analysis_c1 =
     axisAnalysis ''c1'' 0.8 0.8 [Emotion_supportive] False ''agrees'' Support 0.9 [] None None"

definition analysis_c2 :: SentimentAnalysis where
  "analysis_c2 =
     axisAnalysis ''c2'' 0 0 [Emotion_critical] False ''rejects the parent'' Neutral 0.6
       ''says the parent is wrong'' (Some Disagree) None"

definition item_c1 :: GeminiResponse where
  "item_c1 =
     \<lparr> g_commentId = ''c1'', g_score = 0.8, g_emotions = [Emotion_supportive],
       g_isSarcasm = False, g_reason = ''agrees'' \<rparr>"

definition item_c2 :: GeminiResponse where
  "item_c2 =
     \<lparr> g_commentId = ''c2'', g_score = - 0.5, g_emotions = [Emotion_critical],
       g_isSarcasm = False, g_reason = ''rejects the parent'' \<rparr>"

definition gemini_env :: "GeminiResponse list \<Rightarrow> GeminiEnv" where
  "gemini_env reply =
     \<lparr> gemini_createBatchPrompt = (\<lambda>cs vc. ''Analyze''),
       generateContent = (\<lambda>prompt. Inr ''[]''),
       gemini_parseJSON = (\<lambda>text. Inr (GeminiArray reply)),
       gemini_startTime = 1000, gemini_endTime = 1250 \<rparr>"

definition rate_limit_error :: Thrown where
  "rate_limit_error =
     \<lparr> status = Some 429, error_code = Some ''rate_limit_exceeded'', failed_generation = None,
       message = Some ''429 Too Many Requests'' \<rparr>"

definition groq_env_rate_limited :: GroqEnv where
  "groq_env_rate_limited =
     \<lparr> SYSTEM_PROMPT = ''system'', AXIS_SYSTEM_PROMPT = ''axis system'',
       createBatchPrompt = (\<lambda>cs vc. ''Analyze''),
       createAxisBatchPrompt = (\<lambda>cs ap vc. ''Analyze by axis''),
       chat_create = (\<lambda>sys prompt. Inl rate_limit_error),
       parseJSON = (\<lambda>text. Inr (ParsedArray [])),
       parseJSON_axis = (\<lambda>text. Inr (ParsedArray [])),
       startTime = 1000, endTime = 1250 \<rparr>"

definition axis_profile :: AxisProfile where
  "axis_profile =
     \<lparr> ap_videoId = ''v'', mainAxis = ''Is practice better than theory'',
       creatorPosition = ''Practice first'', targetOfCriticism = None, supportedValues = None,
       generatedAt = ''2026-01-11'' \<rparr>"

section \<open>Stance synthesis: the rule table\<close>

text \<open>
  C2. For every parent label P and reply relation R, \<open>synthesizeStance P R\<close> is Neutral when R
  is unrelated, clarify or question; when R is disagree it is Oppose for P = Support, Support
  for P = Oppose, Neutral for P = Neutral and Unknown for the remaining parent label; it is P
  itself when R is agree. The five relations are all the relations there are, so the last
  conjunct, which gives the result for an arbitrary R, leaves Unknown for anything else.
\<close>

theorem synthesizeStance_table:
  "synthesizeStance P Unrelated = Neutral
   \<and> synthesizeStance P Clarify = Neutral
   \<and> synthesizeStance P Question = Neutral
   \<and> synthesizeStance Support Disagree = Oppose
   \<and> synthesizeStance Oppose Disagree = Support
   \<and> synthesizeStance Neutral Disagree = Neutral
   \<and> synthesizeStance P Disagree =
        (if P = Support then Oppose else if P = Oppose then Support
         else if P = Neutral then Neutral else Unknown)
   \<and> synthesizeStance P Agree = P
   \<and> synthesizeStance P R =
        (if R \<in> {Unrelated, Clarify, Question} then Neutral
         else if R = Disagree then synthesizeStance P Disagree
         else if R = Agree then P
         else Unknown)"
  by (cases R) (simp_all add: synthesizeStance_def)

section \<open>Label and score conversion\<close>

text \<open>
  C8. \<open>labelToScore\<close> is total on the four labels with Support to 0.85, Oppose to -0.85, Neutral
  to 0 and Unknown to 0; \<open>scoreToLabel\<close> gives Support for a score of at least 0.7, Oppose for a
  score of at most -0.7, Neutral for an absolute value below 0.3 and Unknown otherwise; and on
  each label l, \<open>labelToScore (scoreToLabel (labelToScore l)) = labelToScore l\<close>.
\<close>

theorem labelToScore_scoreToLabel:
  "labelToScore Support = 85 / 100
   \<and> labelToScore Oppose = - (85 / 100)
   \<and> labelToScore Neutral = 0
   \<and> labelToScore Unknown = 0
   \<and> scoreToLabel s =
        (if s \<ge> 7 / 10 then Support
         else if s \<le> - (7 / 10) then Oppose
         else if \<bar>s\<bar> < 3 / 10 then Neutral
         else Unknown)
   \<and> labelToScore (scoreToLabel (labelToScore l)) = labelToScore l"
  by (cases l) (simp_all add: scoreToLabel_def)

section \<open>Lookup in the maps built by the source\<close>

text \<open>
  A \<open>Map\<close> filled entry by entry answers a lookup with the last entry of the list that has the
  key.
\<close>

lemma find_snoc:
  "find P (xs @ [a]) =
     (case find P xs of None \<Rightarrow> (if P a then Some a else None) | Some x \<Rightarrow> Some x)"
  by (induction xs) simp_all

lemma foldl_upd_lookup:
  "foldl (\<lambda>m a. m(k a \<mapsto> a)) m0 xs x =
     (case find (\<lambda>a. k a = x) (rev xs) of None \<Rightarrow> m0 x | Some a \<Rightarrow> Some a)"
proof (induction xs arbitrary: m0)
  case Nil
  show ?case by simp
next
  case (Cons a xs)
  have "foldl (\<lambda>m a. m(k a \<mapsto> a)) m0 (a # xs) x =
        foldl (\<lambda>m a. m(k a \<mapsto> a)) (m0(k a \<mapsto> a)) xs x"
    by simp
  also have "\<dots> = (case find (\<lambda>a. k a = x) (rev xs) of
                      None \<Rightarrow> (m0(k a \<mapsto> a)) x | Some b \<Rightarrow> Some b)"
    by (rule Cons.IH)
  also have "\<dots> = (case find (\<lambda>a. k a = x) (rev (a # xs)) of
                      None \<Rightarrow> m0 x | Some b \<Rightarrow> Some b)"
    by (auto simp add: find_snoc split: option.split)
  finally show ?case .
qed

lemma analysisMap_of_find:
  "analysisMap_of js pid = find (\<lambda>a. commentId a = pid) (rev js)"
  by (simp add: analysisMap_of_def foldl_upd_lookup split: option.split)

lemma commentMap_of_find:
  "commentMap_of cs k = find (\<lambda>c. id_str c = k) (rev cs)"
  by (simp add: commentMap_of_def foldl_upd_lookup split: option.split)

lemma gtMap_of_find:
  "gtMap_of groundTruth k = find (\<lambda>g. gt_commentId g = k) (rev groundTruth)"
  by (simp add: gtMap_of_def foldl_upd_lookup split: option.split)

lemma gtMap_of_has:
  "(\<exists>g. gtMap_of gts k = Some g) = (k \<in> gt_commentId ` set gts)"
proof -
  have "(\<exists>g. gtMap_of gts k = Some g) = (gtMap_of gts k \<noteq> None)"
    by simp
  also have "\<dots> = (k \<in> gt_commentId ` set gts)"
    by (auto simp add: gtMap_of_find find_None_iff simp del: not_None_eq)
  finally show ?thesis .
qed

section \<open>Batch application of stance synthesis\<close>

lemma synthesizeReply_commentId:
  "commentId (synthesizeReply am cm a) = commentId a"
  by (simp add: synthesizeReply_def Let_def split: option.split)

text \<open>
  A judgment whose comment is not in the list, or has no \<open>parentId\<close>, or has the empty string
  as \<open>parentId\<close>, is not a reply for the code and is returned as it is.
\<close>

lemma applyStanceSynthesis_not_reply:
  assumes "i < length js"
    and "case find (\<lambda>c. id_str c = commentId (js ! i)) (rev cs) of
           None \<Rightarrow> True
         | Some c \<Rightarrow> \<not> truthy_str (parentId c)"
  shows "applyStanceSynthesis js cs ! i = js ! i"
  using assms
  by (auto simp add: applyStanceSynthesis_def synthesizeReply_def commentMap_of_find
      truthy_str_def split: option.splits)

text \<open>
  C10. For every list of judgments and every list of comments, \<open>applyStanceSynthesis\<close> returns a
  list of the same length whose judgment at every index has the \<open>commentId\<close> of the input
  judgment at that index: nothing is added, dropped or reordered.
\<close>

theorem applyStanceSynthesis_aligned:
  "length (applyStanceSynthesis js cs) = length js
   \<and> map commentId (applyStanceSynthesis js cs) = map commentId js"
  by (simp add: applyStanceSynthesis_def synthesizeReply_commentId)

text \<open>
  C3, as the code has it. Take the judgment at index \<open>i\<close>, whose comment (the last comment of
  the list with its id) has a non-empty \<open>parentId\<close>; the parent's judgment is the last judgment
  of the input list with that id, and the parent's label is the label it has in the input list.
  If the parent's judgment is missing, or has no label, or the reply has no \<open>replyRelation\<close>,
  the judgment is returned unchanged. Otherwise the label becomes \<open>synthesizeStance\<close> of the
  parent's label and the relation, the score becomes \<open>labelToScore\<close> of that label, the evidence
  becomes a note on the parent's label and the relation followed by the old evidence (the note
  alone when there was no evidence), and the reason is replaced by a note on the old label, the
  new label, the parent's label and the relation. No other field changes.
\<close>

theorem applyStanceSynthesis_reply:
  assumes "i < length js"
    and "find (\<lambda>c. id_str c = commentId (js ! i)) (rev cs) = Some c"
    and "parentId c = Some pid"
    and "pid \<noteq> []"
  shows "(find (\<lambda>x. commentId x = pid) (rev js) = None
            \<or> (\<exists>pa. find (\<lambda>x. commentId x = pid) (rev js) = Some pa \<and> label pa = None)
            \<or> replyRelation (js ! i) = None
          \<longrightarrow> applyStanceSynthesis js cs ! i = js ! i)
       \<and> (\<forall>pa pl rel.
             find (\<lambda>x. commentId x = pid) (rev js) = Some pa \<and> label pa = Some pl
               \<and> replyRelation (js ! i) = Some rel
             \<longrightarrow> applyStanceSynthesis js cs ! i =
                   (js ! i)
                     \<lparr> label := Some (synthesizeStance pl rel),
                       score := labelToScore (synthesizeStance pl rel),
                       axisEvidence :=
                         Some (case axisEvidence (js ! i) of
                                 None \<Rightarrow> synthesizedEvidence pl rel
                               | Some ev \<Rightarrow>
                                   if ev = [] then synthesizedEvidence pl rel
                                   else threadContextEvidence pl rel ev),
                       reason :=
                         Some (synthesizedReason (label (js ! i)) (synthesizeStance pl rel)
                                 pl rel) \<rparr>)
       \<and> (applyStanceSynthesis js cs ! i)
            \<lparr> label := label (js ! i), score := score (js ! i),
              axisEvidence := axisEvidence (js ! i),
              reason := reason (js ! i) \<rparr> = js ! i"
proof -
  let ?a = "js ! i"
  have out: "applyStanceSynthesis js cs ! i =
      synthesizeReply (analysisMap_of js) (commentMap_of cs) ?a"
    using assms(1) by (simp add: applyStanceSynthesis_def)
  have cm: "commentMap_of cs (commentId ?a) = Some c"
    using assms(2) by (simp add: commentMap_of_find)
  have am: "analysisMap_of js pid = find (\<lambda>x. commentId x = pid) (rev js)"
    by (rule analysisMap_of_find)
  show ?thesis
    unfolding out
    using cm assms(3,4)
    by (auto simp add: synthesizeReply_def am Let_def truthy_str_def split: option.split)
qed

theorem applyStanceSynthesis_reply_witness:
  "find (\<lambda>c. id_str c = commentId analysis_c2) (rev [comment_c1, comment_c2]) = Some comment_c2
   \<and> parentId comment_c2 = Some ''c1''
   \<and> find (\<lambda>x. commentId x = ''c1'') (rev [analysis_c1, analysis_c2]) = Some analysis_c1
   \<and> label analysis_c1 = Some Support
   \<and> replyRelation analysis_c2 = Some Disagree
   \<and> applyStanceSynthesis [analysis_c1, analysis_c2] [comment_c1, comment_c2] ! 1 =
       analysis_c2
         \<lparr> label := Some Oppose, score := - 0.85,
           axisEvidence :=
             Some ''[Thread Context: Parent was Support, Reply disagree] says the parent is wrong'',
           reason :=
             Some ''Original: Neutral -> Synthesized: Oppose (Parent: Support, Relation: disagree)'' \<rparr>
   \<and> find (\<lambda>x. commentId x = ''c1'') (rev [analysis_c2]) = None
   \<and> applyStanceSynthesis [analysis_c2] [comment_c1, comment_c2] ! 0 = analysis_c2"
proof -
  have c: "find (\<lambda>c. id_str c = commentId analysis_c2) (rev [comment_c1, comment_c2])
             = Some comment_c2"
    by (simp add: analysis_c2_def axisAnalysis_def comment_c1_def comment_c2_def)
  have p: "parentId comment_c2 = Some ''c1''"
    by (simp add: comment_c2_def)
  have ne: "''c1'' \<noteq> []"
    by simp
  have pa: "find (\<lambda>x. commentId x = ''c1'') (rev [analysis_c1, analysis_c2]) = Some analysis_c1"
    by (simp add: analysis_c1_def analysis_c2_def axisAnalysis_def)
  have pl: "label analysis_c1 = Some Support"
    by (simp add: analysis_c1_def axisAnalysis_def)
  have rel: "replyRelation analysis_c2 = Some Disagree"
    by (simp add: analysis_c2_def axisAnalysis_def)
  have ev: "axisEvidence analysis_c2 = Some ''says the parent is wrong''"
    by (simp add: analysis_c2_def axisAnalysis_def)
  have lb: "label analysis_c2 = Some Neutral"
    by (simp add: analysis_c2_def axisAnalysis_def)
  have none: "find (\<lambda>x. commentId x = ''c1'') (rev [analysis_c2]) = None"
    by (simp add: analysis_c2_def axisAnalysis_def)
  have synthesized:
    "applyStanceSynthesis [analysis_c1, analysis_c2] [comment_c1, comment_c2] ! 1 =
       analysis_c2
         \<lparr> label := Some Oppose, score := - 0.85,
           axisEvidence :=
             Some ''[Thread Context: Parent was Support, Reply disagree] says the parent is wrong'',
           reason :=
             Some ''Original: Neutral -> Synthesized: Oppose (Parent: Support, Relation: disagree)'' \<rparr>"
    using applyStanceSynthesis_reply
            [of 1 "[analysis_c1, analysis_c2]" "[comment_c1, comment_c2]" comment_c2 "''c1''"]
      c p pa pl rel ev lb
    by (simp add: synthesizeStance_def threadContextEvidence_def synthesizedReason_def)
  have unchanged:
    "applyStanceSynthesis [analysis_c2] [comment_c1, comment_c2] ! 0 = analysis_c2"
    using applyStanceSynthesis_reply
            [of 0 "[analysis_c2]" "[comment_c1, comment_c2]" comment_c2 "''c1''"]
      c p none
    by simp
  show ?thesis
    using c p pa pl rel synthesized none unchanged by simp
qed

text \<open>
  The note is not appended to the two fields: for the reply \<open>c2\<close>, neither the old reason nor
  the old evidence is the beginning of the new one.
\<close>

theorem applyStanceSynthesis_append_counterexample:
  "reason analysis_c2 = Some ''rejects the parent''
   \<and> \<not> (\<exists>note. reason (applyStanceSynthesis [analysis_c1, analysis_c2]
                          [comment_c1, comment_c2] ! 1)
                 = Some (''rejects the parent'' @ note))
   \<and> axisEvidence analysis_c2 = Some ''says the parent is wrong''
   \<and> \<not> (\<exists>note. axisEvidence (applyStanceSynthesis [analysis_c1, analysis_c2]
                                [comment_c1, comment_c2] ! 1)
                 = Some (''says the parent is wrong'' @ note))"
  by (simp add: applyStanceSynthesis_def analysisMap_of_def commentMap_of_def
      synthesizeReply_def analysis_c1_def analysis_c2_def axisAnalysis_def comment_c1_def
      comment_c2_def synthesizeStance_def threadContextEvidence_def synthesizedReason_def
      truthy_str_def)

section \<open>Evaluation: what is scored\<close>

lemma confusionTotal_bump:
  "confusionTotal (m(e := (m e)(p := Suc (m e p)))) = Suc (confusionTotal m)"
  by (cases e; cases p) (simp_all add: confusionTotal_def stanceLabels_def)

lemma evalStep_correct:
  "st_correct (evalStep gm st pred) =
     st_correct st + (case gm (commentId pred) of None \<Rightarrow> 0
                      | Some g \<Rightarrow> if label pred = Some (expectedLabel g) then 1 else 0)"
  by (auto simp add: evalStep_def Let_def split: option.split)

lemma evalStep_counted:
  "confusionTotal (st_matrix (evalStep gm st pred)) =
     confusionTotal (st_matrix st)
     + (if label pred \<noteq> None \<and> gm (commentId pred) \<noteq> None then 1 else 0)"
  by (auto simp add: evalStep_def Let_def confusionTotal_bump split: option.split)

lemma severity_high:
  "(getCriticalErrorSeverity e p = Some High) =
     ((e = Support \<and> p = Oppose) \<or> (e = Oppose \<and> p = Support))"
  by (simp add: getCriticalErrorSeverity_def)

lemma severity_medium:
  "(getCriticalErrorSeverity e p = Some Medium) =
     (((e = Support \<or> e = Oppose) \<and> p = Neutral) \<or> (e = Neutral \<and> (p = Support \<or> p = Oppose)))"
  by (cases e; cases p) (simp_all add: getCriticalErrorSeverity_def)

lemma severity_low:
  "(getCriticalErrorSeverity e p = Some Low) =
     ((e = Unknown \<or> p = Unknown)
      \<and> \<not> ((e = Support \<and> p = Oppose) \<or> (e = Oppose \<and> p = Support))
      \<and> \<not> (((e = Support \<or> e = Oppose) \<and> p = Neutral)
            \<or> (e = Neutral \<and> (p = Support \<or> p = Oppose))))"
  by (cases e; cases p) (simp_all add: getCriticalErrorSeverity_def)

lemma severity_none:
  "(getCriticalErrorSeverity e p = None) = (e = p \<and> e \<noteq> Unknown)"
  by (cases e; cases p) (simp_all add: getCriticalErrorSeverity_def)

lemma evalStep_errors:
  "map (\<lambda>x. (ce_commentId x, expected x, predicted x, Some (severity x)))
       (st_errors (evalStep gm st pred)) =
     map (\<lambda>x. (ce_commentId x, expected x, predicted x, Some (severity x))) (st_errors st)
     @ (case gm (commentId pred) of None \<Rightarrow> []
        | Some g \<Rightarrow>
            (case label pred of None \<Rightarrow> []
             | Some l \<Rightarrow>
                 if expectedLabel g = l then []
                 else [(commentId pred, expectedLabel g, l,
                        getCriticalErrorSeverity (expectedLabel g) l)]))"
  by (auto simp add: evalStep_def Let_def severity_none split: option.split)

lemma foldl_evalStep_correct:
  "st_correct (foldl (evalStep gm) st preds) =
     st_correct st
     + length (filter (\<lambda>p. case gm (commentId p) of None \<Rightarrow> False
                           | Some g \<Rightarrow> label p = Some (expectedLabel g)) preds)"
proof (induction preds arbitrary: st)
  case Nil
  show ?case by simp
next
  case (Cons p ps)
  show ?case
    by (simp add: Cons.IH evalStep_correct split: option.split)
qed

lemma foldl_evalStep_counted:
  "confusionTotal (st_matrix (foldl (evalStep gm) st preds)) =
     confusionTotal (st_matrix st)
     + length (filter (\<lambda>p. label p \<noteq> None \<and> gm (commentId p) \<noteq> None) preds)"
proof (induction preds arbitrary: st)
  case Nil
  show ?case by simp
next
  case (Cons p ps)
  show ?case
    by (simp add: Cons.IH evalStep_counted)
qed

lemma foldl_evalStep_errors:
  "map (\<lambda>x. (ce_commentId x, expected x, predicted x, Some (severity x)))
       (st_errors (foldl (evalStep gm) st preds)) =
     map (\<lambda>x. (ce_commentId x, expected x, predicted x, Some (severity x))) (st_errors st)
     @ concat (map (\<lambda>pred. case gm (commentId pred) of None \<Rightarrow> []
        | Some g \<Rightarrow>
            (case label pred of None \<Rightarrow> []
             | Some l \<Rightarrow>
                 if expectedLabel g = l then []
                 else [(commentId pred, expectedLabel g, l,
                        getCriticalErrorSeverity (expectedLabel g) l)])) preds)"
proof (induction preds arbitrary: st)
  case Nil
  show ?case by simp
next
  case (Cons p ps)
  show ?case
    by (simp add: Cons.IH evalStep_errors)
qed

text \<open>
  C6. A judgment is scored when it has a label and some ground-truth item has its
  \<open>commentId\<close>. \<open>totalSamples\<close> is the number of scored judgments, and so is the number of
  judgments the confusion matrix has counted; \<open>correctPredictions\<close> is the number of judgments
  whose label is the expected label of their ground-truth item (the last item of the list with
  that id); \<open>accuracy\<close> is \<open>correctPredictions\<close> divided by \<open>totalSamples\<close>, and 0 when no
  judgment is scored.
\<close>

theorem evaluateStanceAccuracy_scored:
  "totalSamples (evaluateStanceAccuracy preds gts) =
     length (filter (\<lambda>p. label p \<noteq> None \<and> commentId p \<in> gt_commentId ` set gts) preds)
   \<and> confusionTotal (confusionMatrix (evaluateStanceAccuracy preds gts)) =
     length (filter (\<lambda>p. label p \<noteq> None \<and> commentId p \<in> gt_commentId ` set gts) preds)
   \<and> correctPredictions (evaluateStanceAccuracy preds gts) =
     length (filter (\<lambda>p. case find (\<lambda>g. gt_commentId g = commentId p) (rev gts) of
                            None \<Rightarrow> False
                          | Some g \<Rightarrow> label p = Some (expectedLabel g)) preds)
   \<and> accuracy (evaluateStanceAccuracy preds gts) =
     (if filter (\<lambda>p. label p \<noteq> None \<and> commentId p \<in> gt_commentId ` set gts) preds = [] then 0
      else real (correctPredictions (evaluateStanceAccuracy preds gts))
           / real (totalSamples (evaluateStanceAccuracy preds gts)))"
proof -
  have total: "totalSamples (evaluateStanceAccuracy preds gts) =
     length (filter (\<lambda>p. label p \<noteq> None \<and> commentId p \<in> gt_commentId ` set gts) preds)"
    by (simp add: evaluateStanceAccuracy_def Let_def gtMap_of_has)
  have counted: "confusionTotal (confusionMatrix (evaluateStanceAccuracy preds gts)) =
     length (filter (\<lambda>p. label p \<noteq> None \<and> commentId p \<in> gt_commentId ` set gts) preds)"
  proof -
    have zero: "confusionTotal (\<lambda>e p. 0) = 0"
      by (simp add: confusionTotal_def stanceLabels_def)
    have "confusionMatrix (evaluateStanceAccuracy preds gts) =
          st_matrix (foldl (evalStep (gtMap_of gts))
            \<lparr> st_matrix = (\<lambda>e p. 0), st_errors = [], st_correct = 0 \<rparr> preds)"
      by (simp add: evaluateStanceAccuracy_def Let_def)
    then show ?thesis
      by (simp add: foldl_evalStep_counted zero gtMap_of_has)
  qed
  have correct: "correctPredictions (evaluateStanceAccuracy preds gts) =
     length (filter (\<lambda>p. case find (\<lambda>g. gt_commentId g = commentId p) (rev gts) of
                            None \<Rightarrow> False
                          | Some g \<Rightarrow> label p = Some (expectedLabel g)) preds)"
    by (simp add: evaluateStanceAccuracy_def Let_def foldl_evalStep_correct gtMap_of_find)
  have acc: "accuracy (evaluateStanceAccuracy preds gts) =
     (if totalSamples (evaluateStanceAccuracy preds gts) > 0
      then real (correctPredictions (evaluateStanceAccuracy preds gts))
           / real (totalSamples (evaluateStanceAccuracy preds gts)) else 0)"
    by (simp add: evaluateStanceAccuracy_def Let_def)
  show ?thesis
    using total counted correct acc by auto
qed

section \<open>Evaluation: critical errors\<close>

text \<open>
  C7. The critical errors are, in order, one for each scored judgment whose label differs from
  the expected label, and none for any other judgment; each carries the severity that
  \<open>getCriticalErrorSeverity\<close> gives for the expected and the predicted label. That severity is
  high exactly for Support against Oppose in either direction, medium exactly when one side is
  Support or Oppose and the other is Neutral, low exactly when either side is Unknown and the
  pair is neither high nor medium, and absent exactly when the two labels are equal and not
  Unknown, which no mismatch is.
\<close>

theorem criticalErrors_classified:
  "map (\<lambda>x. (ce_commentId x, expected x, predicted x, Some (severity x)))
       (criticalErrors (evaluateStanceAccuracy preds gts)) =
     concat (map (\<lambda>pred. case find (\<lambda>g. gt_commentId g = commentId pred) (rev gts) of
                None \<Rightarrow> []
              | Some g \<Rightarrow>
                  (case label pred of
                     None \<Rightarrow> []
                   | Some l \<Rightarrow>
                       if expectedLabel g = l then []
                       else [(commentId pred, expectedLabel g, l,
                              getCriticalErrorSeverity (expectedLabel g) l)])) preds)
   \<and> (getCriticalErrorSeverity e p = Some High) =
       ((e = Support \<and> p = Oppose) \<or> (e = Oppose \<and> p = Support))
   \<and> (getCriticalErrorSeverity e p = Some Medium) =
       (((e = Support \<or> e = Oppose) \<and> p = Neutral) \<or> (e = Neutral \<and> (p = Support \<or> p = Oppose)))
   \<and> (getCriticalErrorSeverity e p = Some Low) =
       ((e = Unknown \<or> p = Unknown)
        \<and> \<not> ((e = Support \<and> p = Oppose) \<or> (e = Oppose \<and> p = Support))
        \<and> \<not> (((e = Support \<or> e = Oppose) \<and> p = Neutral)
              \<or> (e = Neutral \<and> (p = Support \<or> p = Oppose))))
   \<and> (getCriticalErrorSeverity e p = None) = (e = p \<and> e \<noteq> Unknown)"
proof -
  have "map (\<lambda>x. (ce_commentId x, expected x, predicted x, Some (severity x)))
       (criticalErrors (evaluateStanceAccuracy preds gts)) =
     concat (map (\<lambda>pred. case find (\<lambda>g. gt_commentId g = commentId pred) (rev gts) of
                None \<Rightarrow> []
              | Some g \<Rightarrow>
                  (case label pred of
                     None \<Rightarrow> []
                   | Some l \<Rightarrow>
                       if expectedLabel g = l then []
                       else [(commentId pred, expectedLabel g, l,
                              getCriticalErrorSeverity (expectedLabel g) l)])) preds)"
    by (simp add: evaluateStanceAccuracy_def Let_def foldl_evalStep_errors gtMap_of_find)
  then show ?thesis
    using severity_high [of e p] severity_medium [of e p] severity_low [of e p]
      severity_none [of e p]
    by blast
qed

section \<open>Weighted score\<close>

lemma clampScore_bounds: "- 1 \<le> clampScore x \<and> clampScore x \<le> 1"
  by (simp add: clampScore_def)

text \<open>
  C4. For every score s and like count L of at least 0, the weighted score is the clamp of
  \<open>s * (1 + log10 (L + 1)) / 7\<close>, where the clamp of x is \<open>max (-1) (min 1 x)\<close>; it lies between
  -1 and 1.
\<close>

theorem calculateWeightedScore_formula:
  assumes "0 \<le> L"
  shows "calculateWeightedScore s L = clampScore (s * (1 + log 10 (real_of_int L + 1)) / 7)
       \<and> clampScore x = max (- 1) (min 1 x)
       \<and> - 1 \<le> calculateWeightedScore s L \<and> calculateWeightedScore s L \<le> 1"
proof -
  have eq: "calculateWeightedScore s L = clampScore (s * (1 + log 10 (real_of_int L + 1)) / 7)"
    by (simp add: calculateWeightedScore_def Let_def)
  have "- 1 \<le> calculateWeightedScore s L \<and> calculateWeightedScore s L \<le> 1"
    unfolding eq by (rule clampScore_bounds)
  then show ?thesis
    using eq by (simp add: clampScore_def)
qed

theorem calculateWeightedScore_formula_witness:
  "(0::int) \<le> 9
   \<and> calculateWeightedScore (85 / 100) 9 = 17 / 70
   \<and> - 1 \<le> calculateWeightedScore (85 / 100) 9
   \<and> calculateWeightedScore (85 / 100) 9 \<le> 1"
proof -
  have h: "(0::int) \<le> 9"
    by simp
  have "calculateWeightedScore (85 / 100) 9
          = clampScore ((85 / 100) * (1 + log 10 (real_of_int 9 + 1)) / 7)
        \<and> - 1 \<le> calculateWeightedScore (85 / 100) 9
        \<and> calculateWeightedScore (85 / 100) 9 \<le> 1"
    using calculateWeightedScore_formula [OF h, of "85 / 100"] by simp
  then show ?thesis
    by (simp add: clampScore_def)
qed

section \<open>Batch analysis: empty input\<close>

text \<open>
  C9. On an empty comment list, \<open>analyzeBatch\<close> of both engines, and the axis variant, return
  an empty judgment list with processing time 0 and \<open>tokensUsed\<close> 0, and make no remote call.
\<close>

theorem analyzeBatch_empty:
  "GeminiEngine_analyzeBatch genv \<lparr> comments = [], videoContext = vc \<rparr> =
     (Inr \<lparr> analyses = [], processingTimeMs = 0, tokensUsed = Some 0, isPartial = None \<rparr>, [])
   \<and> GroqEngine_analyzeBatch env \<lparr> comments = [], videoContext = vc \<rparr> =
     (Inr \<lparr> analyses = [], processingTimeMs = 0, tokensUsed = Some 0, isPartial = None \<rparr>, [])
   \<and> GroqEngine_analyzeAxisBatch env \<lparr> comments = [], videoContext = vc \<rparr> ap =
     (Inr \<lparr> analyses = [], processingTimeMs = 0, tokensUsed = Some 0, isPartial = None \<rparr>, [])"
  by (simp add: GeminiEngine_analyzeBatch_def GroqEngine_analyzeBatch_def
      GroqEngine_analyzeAxisBatch_def emptyResponse_def)

section \<open>Batch analysis: one judgment per comment\<close>

lemma groqItemAnalysis_commentId:
  "commentId (groqItemAnalysis skipped noReason items c) = id_str c"
proof (cases "find (\<lambda>p. r_commentId p = id_str c) items")
  case None
  then show ?thesis
    by (simp add: groqItemAnalysis_def plainAnalysis_def)
next
  case (Some item)
  then have "r_commentId item = id_str c"
    by (auto simp add: find_Some_iff)
  with Some show ?thesis
    by (simp add: groqItemAnalysis_def plainAnalysis_def)
qed

lemma groqItemAnalysis_absent:
  assumes "id_str c \<notin> r_commentId ` set items"
  shows "groqItemAnalysis skipped noReason items c =
           plainAnalysis (id_str c) 0 0 [Emotion_neutral] False skipped"
proof -
  have "find (\<lambda>p. r_commentId p = id_str c) items = None"
    using assms by (auto simp add: find_None_iff intro: rev_image_eqI)
  then show ?thesis
    by (simp add: groqItemAnalysis_def)
qed

text \<open>
  \<open>GroqEngine.analyzeBatch\<close> maps over the comments of the request: when the remote call and
  the decoder return, the judgments carry the ids of the comments, in order, whatever the
  decoded reply holds.
\<close>

lemma GroqEngine_analyzeBatch_aligned:
  assumes "comments request \<noteq> []"
    and "chat_create env (SYSTEM_PROMPT env)
           (createBatchPrompt env (comments request) (videoContext request)) = Inr completion"
    and "parseJSON env (completionText completion) = Inr parsed"
  shows "\<exists>resp. fst (GroqEngine_analyzeBatch env request) = Inr resp
           \<and> map commentId (analyses resp) = map id_str (comments request)"
  using assms
  by (simp add: GroqEngine_analyzeBatch_def Let_def groqItemAnalysis_commentId comp_def)

text \<open>
  C1 fails for \<open>GeminiEngine.analyzeBatch\<close>, which maps over the items of the reply. For the
  request with the comments \<open>c1\<close> and \<open>c2\<close>: a reply with the item for \<open>c2\<close> only gives one
  judgment, for \<open>c2\<close>; a reply in the order \<open>c2\<close>, \<open>c1\<close> gives the judgments in that order; a
  reply that repeats the item for \<open>c1\<close> gives three judgments.
\<close>

theorem GeminiEngine_analyzeBatch_follows_reply:
  "map id_str (comments request_c1_c2) = [''c1'', ''c2'']
   \<and> map_sum ae_code (\<lambda>resp. map commentId (analyses resp))
        (fst (GeminiEngine_analyzeBatch (gemini_env [item_c2]) request_c1_c2)) = Inr [''c2'']
   \<and> map_sum ae_code (\<lambda>resp. map commentId (analyses resp))
        (fst (GeminiEngine_analyzeBatch (gemini_env [item_c2, item_c1]) request_c1_c2))
       = Inr [''c2'', ''c1'']
   \<and> map_sum ae_code (\<lambda>resp. map commentId (analyses resp))
        (fst (GeminiEngine_analyzeBatch (gemini_env [item_c1, item_c1, item_c2]) request_c1_c2))
       = Inr [''c1'', ''c1'', ''c2'']"
  by (simp add: GeminiEngine_analyzeBatch_def gemini_env_def request_c1_c2_def Let_def
      geminiItemAnalysis_def plainAnalysis_def item_c1_def item_c2_def comment_c1_def
      comment_c2_def)

section \<open>Batch analysis: rate and quota limits\<close>

lemma failedContent_status:
  "status e = Some 429 \<or> status e = Some 413 \<Longrightarrow> failedContent e = None"
  by (auto simp add: failedContent_def)

lemma groqBatchCatch_quota:
  assumes "isQuotaError e"
    and "case failedContent e of None \<Rightarrow> True | Some fc \<Rightarrow> isl (parseJSON env fc)"
  shows "groqBatchCatch env request e =
           Inr \<lparr> analyses = map quotaFallback (comments request),
                 processingTimeMs = endTime env - startTime env,
                 tokensUsed = Some 0, isPartial = Some True \<rparr>"
  using assms
  by (auto simp add: groqBatchCatch_def Let_def isl_def split: option.splits sum.splits)

lemma groqAxisCatch_quota:
  assumes "isQuotaError e"
    and "case failedContent e of None \<Rightarrow> True | Some fc \<Rightarrow> isl (parseJSON_axis env fc)"
  shows "groqAxisCatch env request scs e =
           Inr \<lparr> analyses = map axisQuotaFallback (comments request),
                 processingTimeMs = endTime env - startTime env,
                 tokensUsed = Some 0, isPartial = Some True \<rparr>"
  using assms
  by (auto simp add: groqAxisCatch_def Let_def isl_def split: option.splits sum.splits)

text \<open>
  C5. The remote call of \<open>GroqEngine.analyzeBatch\<close>, or of the axis variant, fails with an
  error that the handler detects as a rate or quota limit: the handler reaches its quota test,
  which it does unless the error is a status 400 \<open>json_validate_failed\<close> error whose failed
  generation decodes, and the test holds. Then the call does not throw: it returns a result with
  \<open>isPartial\<close> true whose judgments are one fallback per comment of the request, in the order
  of the request, each with score 0, weighted score 0, the single emotion neutral, sarcasm false
  and a reason that names the API limits.
\<close>

theorem quota_failure_gives_partial_result:
  assumes "comments request \<noteq> []"
    and "isQuotaError e"
    and "case failedContent e of
           None \<Rightarrow> True
         | Some fc \<Rightarrow> isl (parseJSON env fc) \<and> isl (parseJSON_axis env fc)"
  shows "(chat_create env (SYSTEM_PROMPT env)
            (createBatchPrompt env (comments request) (videoContext request)) = Inl e
          \<longrightarrow> fst (GroqEngine_analyzeBatch env request) =
                Inr \<lparr> analyses = map quotaFallback (comments request),
                      processingTimeMs = endTime env - startTime env,
                      tokensUsed = Some 0, isPartial = Some True \<rparr>)
       \<and> (chat_create env (AXIS_SYSTEM_PROMPT env)
            (createAxisBatchPrompt env (sortedComments_of (comments request)) axisProfile
               (videoContext request)) = Inl e
          \<longrightarrow> fst (GroqEngine_analyzeAxisBatch env request axisProfile) =
                Inr \<lparr> analyses = map axisQuotaFallback (comments request),
                      processingTimeMs = endTime env - startTime env,
                      tokensUsed = Some 0, isPartial = Some True \<rparr>)
       \<and> map commentId (map quotaFallback (comments request)) = map id_str (comments request)
       \<and> map commentId (map axisQuotaFallback (comments request)) = map id_str (comments request)
       \<and> score (quotaFallback c) = 0 \<and> weightedScore (quotaFallback c) = 0
       \<and> emotions (quotaFallback c) = [Emotion_neutral] \<and> isSarcasm (quotaFallback c) = False
       \<and> reason (quotaFallback c) = Some ''Analysis skipped due to Groq API limits.''
       \<and> score (axisQuotaFallback c) = 0 \<and> weightedScore (axisQuotaFallback c) = 0
       \<and> emotions (axisQuotaFallback c) = [Emotion_neutral]
       \<and> isSarcasm (axisQuotaFallback c) = False
       \<and> reason (axisQuotaFallback c) = Some ''Analysis skipped due to Groq API limits.''"
proof -
  have r1: "case failedContent e of None \<Rightarrow> True | Some fc \<Rightarrow> isl (parseJSON env fc)"
    using assms(3) by (simp split: option.splits)
  have r2: "case failedContent e of None \<Rightarrow> True | Some fc \<Rightarrow> isl (parseJSON_axis env fc)"
    using assms(3) by (simp split: option.splits)
  have batch: "chat_create env (SYSTEM_PROMPT env)
            (createBatchPrompt env (comments request) (videoContext request)) = Inl e
          \<longrightarrow> fst (GroqEngine_analyzeBatch env request) =
                Inr \<lparr> analyses = map quotaFallback (comments request),
                      processingTimeMs = endTime env - startTime env,
                      tokensUsed = Some 0, isPartial = Some True \<rparr>"
    using assms(1) groqBatchCatch_quota [OF assms(2) r1, of request]
    by (simp add: GroqEngine_analyzeBatch_def Let_def)
  have axis: "chat_create env (AXIS_SYSTEM_PROMPT env)
            (createAxisBatchPrompt env (sortedComments_of (comments request)) axisProfile
               (videoContext request)) = Inl e
          \<longrightarrow> fst (GroqEngine_analyzeAxisBatch env request axisProfile) =
                Inr \<lparr> analyses = map axisQuotaFallback (comments request),
                      processingTimeMs = endTime env - startTime env,
                      tokensUsed = Some 0, isPartial = Some True \<rparr>"
    using assms(1)
      groqAxisCatch_quota [OF assms(2) r2, of request "sortedComments_of (comments request)"]
    by (simp add: GroqEngine_analyzeAxisBatch_def Let_def)
  have ids: "map commentId (map quotaFallback (comments request)) = map id_str (comments request)
       \<and> map commentId (map axisQuotaFallback (comments request)) = map id_str (comments request)"
    by (simp add: quotaFallback_def axisQuotaFallback_def plainAnalysis_def axisAnalysis_def
        comp_def)
  have fields: "score (quotaFallback c) = 0 \<and> weightedScore (quotaFallback c) = 0
       \<and> emotions (quotaFallback c) = [Emotion_neutral] \<and> isSarcasm (quotaFallback c) = False
       \<and> reason (quotaFallback c) = Some ''Analysis skipped due to Groq API limits.''
       \<and> score (axisQuotaFallback c) = 0 \<and> weightedScore (axisQuotaFallback c) = 0
       \<and> emotions (axisQuotaFallback c) = [Emotion_neutral]
       \<and> isSarcasm (axisQuotaFallback c) = False
       \<and> reason (axisQuotaFallback c) = Some ''Analysis skipped due to Groq API limits.''"
    by (simp add: quotaFallback_def axisQuotaFallback_def plainAnalysis_def axisAnalysis_def)
  show ?thesis
    using batch axis ids fields by blast
qed

theorem quota_failure_gives_partial_result_witness:
  "comments request_c1_c2 \<noteq> []
   \<and> isQuotaError rate_limit_error
   \<and> failedContent rate_limit_error = None
   \<and> chat_create groq_env_rate_limited (SYSTEM_PROMPT groq_env_rate_limited)
        (createBatchPrompt groq_env_rate_limited (comments request_c1_c2)
           (videoContext request_c1_c2)) = Inl rate_limit_error
   \<and> fst (GroqEngine_analyzeBatch groq_env_rate_limited request_c1_c2) =
        Inr \<lparr> analyses = [quotaFallback comment_c1, quotaFallback comment_c2],
              processingTimeMs = 250, tokensUsed = Some 0, isPartial = Some True \<rparr>
   \<and> fst (GroqEngine_analyzeAxisBatch groq_env_rate_limited request_c1_c2 axis_profile) =
        Inr \<lparr> analyses = [axisQuotaFallback comment_c1, axisQuotaFallback comment_c2],
              processingTimeMs = 250, tokensUsed = Some 0, isPartial = Some True \<rparr>
   \<and> map commentId [quotaFallback comment_c1, quotaFallback comment_c2] = [''c1'', ''c2'']"
proof -
  have ne: "comments request_c1_c2 \<noteq> []"
    by (simp add: request_c1_c2_def)
  have q: "isQuotaError rate_limit_error"
    by (simp add: isQuotaError_def rate_limit_error_def)
  have fc: "failedContent rate_limit_error = None"
    by (simp add: failedContent_def rate_limit_error_def)
  have nr: "case failedContent rate_limit_error of
              None \<Rightarrow> True
            | Some fc \<Rightarrow> isl (parseJSON groq_env_rate_limited fc)
                         \<and> isl (parseJSON_axis groq_env_rate_limited fc)"
    by (simp add: fc)
  have call: "chat_create groq_env_rate_limited sys prompt = Inl rate_limit_error" for sys prompt
    by (simp add: groq_env_rate_limited_def)
  have cs: "comments request_c1_c2 = [comment_c1, comment_c2]"
    by (simp add: request_c1_c2_def)
  have t: "endTime groq_env_rate_limited - startTime groq_env_rate_limited = 250"
    by (simp add: groq_env_rate_limited_def)
  have ids: "map commentId [quotaFallback comment_c1, quotaFallback comment_c2] = [''c1'', ''c2'']"
    by (simp add: quotaFallback_def plainAnalysis_def comment_c1_def comment_c2_def)
  show ?thesis
    using quota_failure_gives_partial_result
            [OF ne q nr, of axis_profile]
      ne q fc call cs t ids
    by simp
qed

end
